theory Spec2Isabelle
  imports Main "HOL-Library.Sublist"
begin

section \<open>Strings and paths\<close>

text \<open>
  The program calls a few functions of Python's \<open>str\<close> and \<open>os.path\<close>. They are
  modelled here as the POSIX flavour of the standard library computes them, on
  \<open>string\<close>, a list of 8-bit characters: a character stands for the code point of the
  same number, so the strings of the model are the Python strings of code points below
  256. \<open>lower\<close> and \<open>strip\<close> follow Python on these: the capitals are \<open>A\<close> to \<open>Z\<close> and
  the code points \<open>0xC0\<close> to \<open>0xDE\<close> but \<open>0xD7\<close>, each 32 below its small letter.
\<close>

definition capitals :: string where
  "capitals =
     ''ABCDEFGHIJKLMNOPQRSTUVWXYZ''
     @ [CHR 0xC0, CHR 0xC1, CHR 0xC2, CHR 0xC3, CHR 0xC4, CHR 0xC5, CHR 0xC6, CHR 0xC7,
        CHR 0xC8, CHR 0xC9, CHR 0xCA, CHR 0xCB, CHR 0xCC, CHR 0xCD, CHR 0xCE, CHR 0xCF,
        CHR 0xD0, CHR 0xD1, CHR 0xD2, CHR 0xD3, CHR 0xD4, CHR 0xD5, CHR 0xD6,
        CHR 0xD8, CHR 0xD9, CHR 0xDA, CHR 0xDB, CHR 0xDC, CHR 0xDD, CHR 0xDE]"

definition small_letters :: string where
  "small_letters =
     ''abcdefghijklmnopqrstuvwxyz''
     @ [CHR 0xE0, CHR 0xE1, CHR 0xE2, CHR 0xE3, CHR 0xE4, CHR 0xE5, CHR 0xE6, CHR 0xE7,
        CHR 0xE8, CHR 0xE9, CHR 0xEA, CHR 0xEB, CHR 0xEC, CHR 0xED, CHR 0xEE, CHR 0xEF,
        CHR 0xF0, CHR 0xF1, CHR 0xF2, CHR 0xF3, CHR 0xF4, CHR 0xF5, CHR 0xF6,
        CHR 0xF8, CHR 0xF9, CHR 0xFA, CHR 0xFB, CHR 0xFC, CHR 0xFD, CHR 0xFE]"

definition lower_char :: "char \<Rightarrow> char" where
  "lower_char c =
     (case map_of (zip capitals small_letters) c of
        Some l \<Rightarrow> l
      | None \<Rightarrow> c)"

definition lower :: "string \<Rightarrow> string" where
  "lower s = map lower_char s"

text \<open>\<open>p.rfind(c)\<close>: the index of the last occurrence of \<open>c\<close>, or \<open>-1\<close>.\<close>

primrec rfind_from :: "char \<Rightarrow> string \<Rightarrow> int \<Rightarrow> int \<Rightarrow> int" where
  "rfind_from c [] i found = found"
| "rfind_from c (x # xs) i found = rfind_from c xs (i + 1) (if x = c then i else found)"

definition rfind :: "char \<Rightarrow> string \<Rightarrow> int" where
  "rfind c p = rfind_from c p 0 (- 1)"

text \<open>
  The loop of \<open>genericpath._splitext\<close> that skips the leading dots of the file name: it
  finds a character other than a dot between the last separator and the last dot.
\<close>

primrec has_non_dot :: "string \<Rightarrow> bool" where
  "has_non_dot [] = False"
| "has_non_dot (c # cs) = (if c \<noteq> CHR ''.'' then True else has_non_dot cs)"

definition splitext :: "string \<Rightarrow> string \<times> string" where
  "splitext p =
     (let sepIndex = rfind CHR ''/'' p;
          dotIndex = rfind CHR ''.'' p
      in if dotIndex > sepIndex \<and>
            has_non_dot (take (nat dotIndex - nat (sepIndex + 1)) (drop (nat (sepIndex + 1)) p))
         then (take (nat dotIndex) p, drop (nat dotIndex) p)
         else (p, []))"

definition basename :: "string \<Rightarrow> string" where
  "basename p = drop (nat (rfind CHR ''/'' p + 1)) p"

text \<open>\<open>sep.join(xs)\<close>.\<close>

fun str_join :: "string \<Rightarrow> string list \<Rightarrow> string" where
  "str_join sep [] = []"
| "str_join sep [x] = x"
| "str_join sep (x # y # ys) = x @ sep @ str_join sep (y # ys)"

text \<open>\<open>os.path.join(a, b)\<close> of two components.\<close>

definition path_join :: "string \<Rightarrow> string \<Rightarrow> string" where
  "path_join a b =
     (if b \<noteq> [] \<and> hd b = CHR ''/'' then b
      else if a = [] \<or> last a = CHR ''/'' then a @ b
      else a @ ''/'' @ b)"

text \<open>
  The source writes \<open>\\n\<close> inside ordinary string literals: the two characters
  backslash and \<open>n\<close>, not a line break.
\<close>

definition backslash_n :: string where
  "backslash_n = [CHR 0x5C, CHR ''n'']"

section \<open>Message boxes\<close>

datatype dialog =
  ShowWarning string string
| ShowError string string
| ShowInfo string string

section \<open>FileManager\<close>

definition supported_mechanical_files :: "string list" where
  "supported_mechanical_files = [''.mechdat'']"

definition supported_result_files :: "string list" where
  "supported_result_files = [''.rst'']"

text \<open>
  The two checks of \<open>validate_files\<close> on one path: \<open>os.path.exists\<close>, then the lowercased
  extension against the supported ones. The filesystem is the predicate \<open>exists\<close>.
\<close>

definition accepts :: "(string \<Rightarrow> bool) \<Rightarrow> string list \<Rightarrow> string \<Rightarrow> bool" where
  "accepts exists supported_extensions file_path =
     (if exists file_path
      then (let file_ext = lower (snd (splitext file_path))
            in if file_ext \<in> set supported_extensions then True else False)
      else False)"

text \<open>The \<open>for\<close> loop of \<open>validate_files\<close>, with its two lists as accumulators.\<close>

fun validate_loop ::
  "(string \<Rightarrow> bool) \<Rightarrow> string list \<Rightarrow> string list \<Rightarrow> string list \<Rightarrow> string list
     \<Rightarrow> string list \<times> string list" where
  "validate_loop exists supported_extensions [] valid_files invalid_files =
     (valid_files, invalid_files)"
| "validate_loop exists supported_extensions (file_path # files) valid_files invalid_files =
     (if exists file_path
      then (let file_ext = lower (snd (splitext file_path))
            in if file_ext \<in> set supported_extensions
               then validate_loop exists supported_extensions files
                      (valid_files @ [file_path]) invalid_files
               else validate_loop exists supported_extensions files
                      valid_files (invalid_files @ [file_path]))
      else validate_loop exists supported_extensions files
             valid_files (invalid_files @ [file_path]))"

text \<open>
  \<open>validate_files\<close> returns \<open>valid_files\<close>; \<open>invalid_files\<close> is local and reaches the user
  through the message box only. The model keeps all three.
\<close>

record validation =
  valid_files :: "string list"
  invalid_files :: "string list"
  shown :: "dialog list"

definition invalid_files_message :: "string list \<Rightarrow> string" where
  "invalid_files_message invalid =
     ''The following files are not supported or don'' @ [CHR 0x27] @ ''t exist:''
       @ backslash_n @ str_join backslash_n (map basename invalid)"

definition validate_files :: "(string \<Rightarrow> bool) \<Rightarrow> string list \<Rightarrow> string list \<Rightarrow> validation" where
  "validate_files exists files supported_extensions =
     (let (valid, invalid) = validate_loop exists supported_extensions files [] []
      in \<lparr> valid_files = valid,
           invalid_files = invalid,
           shown = (if invalid \<noteq> []
                    then [ShowWarning ''Invalid Files'' (invalid_files_message invalid)]
                    else []) \<rparr>)"

section \<open>Child processes\<close>

text \<open>
  What the environment answers to \<open>subprocess.run(argv, check=True, capture_output=True,
  text=True)\<close>: the child ran and exited with a return code, its standard output and its
  standard error, or the call raised something else (the program could not be started,
  say) with a message.
\<close>

datatype completed =
  Exited int string string
| RunRaised string

text \<open>
  What the environment answers to \<open>subprocess.Popen\<close> with \<open>stderr=STDOUT\<close> followed by
  reading the lines and \<open>wait()\<close>: the lines of the combined output and the return code,
  or the lines read before an exception and its message (no line when \<open>Popen\<close> itself
  raised).
\<close>

datatype popen_result =
  Ran "string list" int
| Raised "string list" string

section \<open>MechanicalViewer\<close>

record mechanical_viewer =
  m_selected_files :: "string list"
  m_tree_selection :: "string list"
  m_status_var :: string
  m_dialogs :: "dialog list"
  m_threads :: "string list"
  m_callback_errors :: "string list"

text \<open>
  \<open>m_tree_selection\<close> holds the path column of the rows selected in the tree view, in
  the order of \<open>file_tree.selection()\<close>; \<open>m_threads\<close> holds the file path of every worker
  thread that was started and has not finished; \<open>m_callback_errors\<close> holds the exceptions
  that left a callback of the UI loop (Tk reports them and goes on).
\<close>

definition launch_interactive_viewer :: "string \<Rightarrow> mechanical_viewer \<Rightarrow> mechanical_viewer" where
  "launch_interactive_viewer file_path s =
     s\<lparr> m_status_var := ''Launching interactive 3D viewer...'',
        m_threads := m_threads s @ [file_path] \<rparr>"

definition open_interactive_view :: "mechanical_viewer \<Rightarrow> mechanical_viewer" where
  "open_interactive_view s =
     (if m_selected_files s = []
      then s\<lparr> m_dialogs := m_dialogs s @ [ShowWarning ''No Files'' ''Please select files first.''] \<rparr>
      else case m_tree_selection s of
             [] \<Rightarrow> s\<lparr> m_dialogs := m_dialogs s
                        @ [ShowWarning ''No Selection'' ''Please select a file from the list.''] \<rparr>
           | file_path # _ \<Rightarrow> launch_interactive_viewer file_path s)"

text \<open>\<open>s.rstrip('/')\<close> and \<open>os.path.dirname\<close>.\<close>

definition rstrip_sep :: "string \<Rightarrow> string" where
  "rstrip_sep s = rev (dropWhile (\<lambda>c. c = CHR ''/'') (rev s))"

definition dirname :: "string \<Rightarrow> string" where
  "dirname p =
     (let i = rfind CHR ''/'' p + 1;
          head = take (nat i) p
      in if head \<noteq> [] \<and> head \<noteq> replicate (length head) CHR ''/''
         then rstrip_sep head else head)"

datatype callback =
  ViewerSuccess
| ViewerFailed string
| CallbackNameError

text \<open>
  The body of the worker thread, \<open>viewer_worker\<close>. It yields the callback it posts to
  the UI loop. \<open>exists\<close> is the filesystem, \<open>current_dir\<close> the directory of the module,
  \<open>run\<close> the answer of \<open>subprocess.run\<close> to a command line.

  The handler of \<open>CalledProcessError\<close> posts a callback over its local \<open>error_msg\<close>.
  The handler \<open>except Exception as e\<close>, reached when the worker script is found at
  neither place or when \<open>subprocess.run\<close> raises something else, posts
  \<open>lambda: self.viewer_failed(str(e))\<close>: the name \<open>e\<close> is unbound when the handler ends,
  so the callback, run later by the UI loop, raises \<open>NameError\<close> and never reaches
  \<open>viewer_failed\<close>.
\<close>

definition viewer_worker ::
  "(string \<Rightarrow> bool) \<Rightarrow> string \<Rightarrow> string \<Rightarrow> (string list \<Rightarrow> completed) \<Rightarrow> string \<Rightarrow> callback" where
  "viewer_worker exists current_dir sys_executable run file_path =
     (let worker_script = path_join current_dir ''interactive_worker.py'';
          alt_worker_script = path_join (dirname current_dir) ''interactive_worker.py'';
          found = (if \<not> exists worker_script
                   then (if exists alt_worker_script then Inr alt_worker_script
                         else Inl (''Interactive worker script not found at '' @ worker_script
                                     @ '' or '' @ alt_worker_script))
                   else Inr worker_script)
      in case found of
           Inl e \<Rightarrow> CallbackNameError
         | Inr script \<Rightarrow>
             (case run [sys_executable, script, file_path] of
                Exited returncode stdout stderr \<Rightarrow>
                  if returncode \<noteq> 0
                  then (let error_msg = (if stderr \<noteq> [] then stderr else stdout)
                        in ViewerFailed error_msg)
                  else ViewerSuccess
              | RunRaised e \<Rightarrow> CallbackNameError))"

definition viewer_success :: "mechanical_viewer \<Rightarrow> mechanical_viewer" where
  "viewer_success s =
     s\<lparr> m_status_var := ''Interactive 3D viewer completed successfully'',
        m_dialogs := m_dialogs s
          @ [ShowInfo ''Success'' ''PyANSYS Mechanical viewer completed successfully!''] \<rparr>"

definition viewer_failed :: "string \<Rightarrow> mechanical_viewer \<Rightarrow> mechanical_viewer" where
  "viewer_failed error s =
     s\<lparr> m_status_var := ''Viewer launch failed'',
        m_dialogs := m_dialogs s
          @ [ShowError ''Viewer Error''
               (''Failed to launch PyANSYS viewer:'' @ backslash_n @ backslash_n @ error)] \<rparr>"

text \<open>The worker thread for \<open>file_path\<close> ends and the UI loop runs its callback.\<close>

definition viewer_thread_done ::
  "(string \<Rightarrow> bool) \<Rightarrow> string \<Rightarrow> string \<Rightarrow> (string list \<Rightarrow> completed) \<Rightarrow> string
     \<Rightarrow> mechanical_viewer \<Rightarrow> mechanical_viewer" where
  "viewer_thread_done exists current_dir sys_executable run file_path s =
     (let s' = s\<lparr> m_threads := remove1 file_path (m_threads s) \<rparr>
      in case viewer_worker exists current_dir sys_executable run file_path of
           ViewerSuccess \<Rightarrow> viewer_success s'
         | ViewerFailed error \<Rightarrow> viewer_failed error s'
         | CallbackNameError \<Rightarrow>
             s'\<lparr> m_callback_errors := m_callback_errors s' @ [''NameError''] \<rparr>)"

section \<open>interactive\_worker.py\<close>

text \<open>
  The script run by the mechanical viewer. \<open>import_error\<close> is the exception of the
  import of the simulation binding, if any; \<open>session\<close> stands for everything after the
  argument check (opening the file, the 3D view, the wait for the Enter key, the cleanup
  of the extraction folder): the lines it prints and the exception it ends with, if any.
  The handler of an exception prints it, asks with \<open>input\<close> for the Enter key and calls
  \<open>sys.exit(1)\<close>; \<open>stdin_eof\<close> says that the standard input is at its end, which makes
  that \<open>input\<close> raise \<open>EOFError\<close> after its prompt. The usage exit is a \<open>SystemExit\<close>,
  which the handler does not catch.

  The result is the exit status, what was written to the standard output, and the
  exception that ended the process with a traceback, if any.
\<close>

definition handle_exception :: "bool \<Rightarrow> string list \<Rightarrow> string \<Rightarrow> int \<times> string list \<times> string option" where
  "handle_exception stdin_eof printed e =
     (let out = printed @ [''Error: '' @ e, ''Press Enter to continue...'']
      in if stdin_eof then (1, out, Some ''EOFError'') else (1, out, None))"

definition interactive_worker ::
  "string option \<Rightarrow> (string \<Rightarrow> string list \<times> string option) \<Rightarrow> bool \<Rightarrow> string list
     \<Rightarrow> int \<times> string list \<times> string option" where
  "interactive_worker import_error session stdin_eof argv =
     (case import_error of
        Some e \<Rightarrow> handle_exception stdin_eof [] e
      | None \<Rightarrow>
          if length argv \<noteq> 2
          then (1, [''Usage: python interactive_worker.py <mechdat_file_path>''], None)
          else (let mechdat_path = argv ! 1
                in case session mechdat_path of
                     (printed, Some e) \<Rightarrow>
                       handle_exception stdin_eof ([''Opening file: '' @ mechdat_path] @ printed) e
                   | (printed, None) \<Rightarrow>
                       (0, [''Opening file: '' @ mechdat_path] @ printed, None)))"

section \<open>ResultViewer\<close>

text \<open>
  The text written by \<open>create_von_mises_script\<close> and \<open>create_total_deformation_script\<close>
  is a fixed template in which every \<open>{file_path}\<close> is replaced by the path; the model
  keeps which template it is and the path put into it.
\<close>

datatype script =
  VonMisesScript string
| TotalDeformationScript string

datatype log_line =
  DebugRunningScript string
| ScriptOutput string
| DebugReturnCode int
| SuccessCompleted
| ErrorReturnCode int
| ExceptionInRunScript string
| DebugCleanedUp string
| DebugCleanupError string

text \<open>
  \<open>rv_files\<close> is the part of the filesystem that holds the generated scripts,
  \<open>rv_threads\<close> the script path of every thread started by \<open>run_script\<close> that has not
  finished, \<open>rv_console\<close> what was printed, \<open>rv_callback_errors\<close> the exceptions that left a
  Tk callback (Tk reports them and goes on).
\<close>

record result_viewer =
  rv_selected_files :: "string list"
  rv_result_type :: string
  rv_status_var :: string
  rv_dialogs :: "dialog list"
  rv_console :: "log_line list"
  rv_files :: "string \<rightharpoonup> script"
  rv_threads :: "string list"
  rv_callback_errors :: "string list"

text \<open>
  \<open>u\<close> is the text of \<open>uuid.uuid4()\<close> drawn by the call, \<open>tmpdir\<close> is
  \<open>tempfile.gettempdir()\<close>, \<open>write_error\<close> the exception of opening the file for writing,
  if any.
\<close>

definition create_von_mises_script ::
  "string \<Rightarrow> string \<Rightarrow> string option \<Rightarrow> string \<Rightarrow> result_viewer \<Rightarrow> (string + string) \<times> result_viewer" where
  "create_von_mises_script tmpdir u write_error file_path s =
     (let script_path = path_join tmpdir (''von_mises_fix_'' @ u @ ''.py'')
      in case write_error of
           Some e \<Rightarrow> (Inl e, s)
         | None \<Rightarrow>
             (Inr script_path,
              s\<lparr> rv_files := (rv_files s)(script_path \<mapsto> VonMisesScript file_path) \<rparr>))"

definition create_total_deformation_script ::
  "string \<Rightarrow> string \<Rightarrow> string option \<Rightarrow> string \<Rightarrow> result_viewer \<Rightarrow> (string + string) \<times> result_viewer" where
  "create_total_deformation_script tmpdir u write_error file_path s =
     (let script_path = path_join tmpdir (''total_deformation_fix_'' @ u @ ''.py'')
      in case write_error of
           Some e \<Rightarrow> (Inl e, s)
         | None \<Rightarrow>
             (Inr script_path,
              s\<lparr> rv_files := (rv_files s)(script_path \<mapsto> TotalDeformationScript file_path) \<rparr>))"

text \<open>\<open>run_script\<close> starts a thread for the script and returns.\<close>

definition run_script :: "string \<Rightarrow> result_viewer \<Rightarrow> result_viewer" where
  "run_script script_path s = s\<lparr> rv_threads := rv_threads s @ [script_path] \<rparr>"

text \<open>
  \<open>available\<close> is \<open>pyvista_available and dpf_available\<close>, fixed when the module is
  imported.
\<close>

definition open_interactive ::
  "bool \<Rightarrow> string \<Rightarrow> string \<Rightarrow> string option \<Rightarrow> result_viewer \<Rightarrow> result_viewer" where
  "open_interactive available tmpdir u write_error s =
     (case rv_selected_files s of
        [] \<Rightarrow> s\<lparr> rv_dialogs := rv_dialogs s
                 @ [ShowWarning ''No Files'' ''Please select RST files first.''] \<rparr>
      | file_path # _ \<Rightarrow>
          if \<not> available
          then s\<lparr> rv_dialogs := rv_dialogs s
                 @ [ShowError ''Missing Dependencies''
                      (''PyVista and DPF Post are required.'' @ backslash_n @ backslash_n
                         @ ''Install with: pip install pyvista ansys-dpf-post'')] \<rparr>
          else (let result_type = rv_result_type s;
                    s1 = s\<lparr> rv_status_var := ''Launching 3D interactive viewer...'' \<rparr>;
                    (created, s2) =
                      (if result_type = ''von_mises''
                       then create_von_mises_script tmpdir u write_error file_path s1
                       else create_total_deformation_script tmpdir u write_error file_path s1)
                in case created of
                     Inl e \<Rightarrow> s2\<lparr> rv_callback_errors := rv_callback_errors s2 @ [e] \<rparr>
                   | Inr script_path \<Rightarrow> run_script script_path s2))"

text \<open>
  \<open>line.strip()\<close>: the white space of both ends removed. Below 256, Python's white
  space is the space, \<open>0x09\<close> to \<open>0x0D\<close>, \<open>0x1C\<close> to \<open>0x1F\<close>, \<open>0x85\<close> and \<open>0xA0\<close>.
\<close>

definition is_space :: "char \<Rightarrow> bool" where
  "is_space c =
     (c \<in> set [CHR '' '', CHR 0x09, CHR 0x0A, CHR 0x0B, CHR 0x0C, CHR 0x0D,
                CHR 0x1C, CHR 0x1D, CHR 0x1E, CHR 0x1F, CHR 0x85, CHR 0xA0])"

definition strip :: "string \<Rightarrow> string" where
  "strip s = rev (dropWhile is_space (rev (dropWhile is_space s)))"

text \<open>
  The body of the thread, \<open>run_in_thread\<close>: the \<open>try\<close>, its \<open>except\<close> and its \<open>finally\<close>.
  \<open>popen\<close> is the answer of the child to a command line, \<open>remove_error\<close> the exception of
  \<open>os.remove\<close>, if any.
\<close>

definition run_in_thread ::
  "string \<Rightarrow> (string list \<Rightarrow> popen_result) \<Rightarrow> string option \<Rightarrow> string \<Rightarrow> result_viewer
     \<Rightarrow> result_viewer" where
  "run_in_thread sys_executable popen remove_error script_path s =
     (let s1 = s\<lparr> rv_console := rv_console s @ [DebugRunningScript script_path] \<rparr>;
          s2 = (case popen [sys_executable, script_path] of
                  Ran lines return_code \<Rightarrow>
                    (let s' = s1\<lparr> rv_console := rv_console s1
                                @ map (\<lambda>line. ScriptOutput (strip line)) lines
                                @ [DebugReturnCode return_code] \<rparr>
                     in if return_code = 0
                        then s'\<lparr> rv_status_var := ''3D visualization completed successfully'',
                                rv_console := rv_console s' @ [SuccessCompleted] \<rparr>
                        else s'\<lparr> rv_status_var := ''Error in 3D visualization'',
                                rv_console := rv_console s' @ [ErrorReturnCode return_code] \<rparr>)
                | Raised lines e \<Rightarrow>
                    s1\<lparr> rv_status_var := ''Error: '' @ e,
                        rv_console := rv_console s1
                          @ map (\<lambda>line. ScriptOutput (strip line)) lines
                          @ [ExceptionInRunScript e] \<rparr>);
          s3 = (if rv_files s2 script_path \<noteq> None
                then (case remove_error of
                        None \<Rightarrow>
                          s2\<lparr> rv_files := (rv_files s2)(script_path := None),
                              rv_console := rv_console s2 @ [DebugCleanedUp script_path] \<rparr>
                      | Some cleanup_error \<Rightarrow>
                          s2\<lparr> rv_console := rv_console s2 @ [DebugCleanupError cleanup_error] \<rparr>)
                else s2)
      in s3\<lparr> rv_threads := remove1 script_path (rv_threads s3) \<rparr>)"

text \<open>
  The path and the content of the script that \<open>open_interactive\<close> ends up writing, by
  result type: the two branches of its \<open>if\<close> over the two \<open>create\<close> functions.
\<close>

definition script_path_of :: "string \<Rightarrow> string \<Rightarrow> string \<Rightarrow> string" where
  "script_path_of tmpdir result_type u =
     path_join tmpdir
       ((if result_type = ''von_mises'' then ''von_mises_fix_'' else ''total_deformation_fix_'')
          @ u @ ''.py'')"

definition script_of :: "string \<Rightarrow> string \<Rightarrow> script" where
  "script_of result_type file_path =
     (if result_type = ''von_mises'' then VonMisesScript file_path
      else TotalDeformationScript file_path)"

section \<open>The example result viewer\<close>

text \<open>
  \<open>article_snippets/result_visualization_example.py\<close> holds a second, self-contained
  result viewer. Its \<open>launch_viewer\<close> writes a worker script and runs it with the file
  path and the result type on the command line.
\<close>

datatype result_kind =
  VonMisesStress
| TotalDeformation

definition launch_viewer_argv :: "string \<Rightarrow> string \<Rightarrow> string \<Rightarrow> string \<Rightarrow> string list" where
  "launch_viewer_argv sys_executable temp_script file_path result_type =
     [sys_executable, temp_script, file_path, result_type]"

text \<open>
  The head of the generated worker: its imports, its argument check and its choice of
  the result. \<open>argv\<close> is the child's \<open>sys.argv\<close> (the command line without the
  interpreter). \<open>embedded\<close> is the result type that \<open>launch_viewer\<close> pasted between
  double quotes into the text of the script. The text is the program the template means
  only when the pasted characters stand for themselves in such a literal: with a double
  quote, a backslash, a line break or a null character among them the script is another
  program or none, which the model reports as \<open>BrokenSource\<close> and follows no further.
  Otherwise the worker exits with a status or goes on to load the file and plot the
  result.
\<close>

datatype worker_start =
  BrokenSource
| Exits int
| Plots string result_kind

definition plain_literal :: "string \<Rightarrow> bool" where
  "plain_literal text =
     list_all (\<lambda>c. c \<notin> set [CHR 0x22, CHR 0x5C, CHR 0x0A, CHR 0x0D, CHR 0x00]) text"

definition example_worker_start ::
  "string option \<Rightarrow> string \<Rightarrow> string list \<Rightarrow> worker_start" where
  "example_worker_start import_error embedded argv =
     (if \<not> plain_literal embedded then BrokenSource
      else case import_error of
             Some e \<Rightarrow> Exits 1
           | None \<Rightarrow>
               if length argv < 2 then Exits 1
               else (let rst_path = argv ! 1;
                         result_type = (if length argv < 3 then embedded else argv ! 2)
                     in if result_type = ''Von Mises Stress''
                        then Plots rst_path VonMisesStress
                        else Plots rst_path TotalDeformation))"

section \<open>launch.py\<close>

text \<open>
  \<open>check_dependencies\<close> returns a dictionary with three keys, in this order; each flag
  says whether the import succeeded.
\<close>

definition check_dependencies :: "bool \<Rightarrow> bool \<Rightarrow> bool \<Rightarrow> (string \<times> bool) list" where
  "check_dependencies tkinter_ok pyvista_ok dpf_ok =
     [(''tkinter'', tkinter_ok), (''pyvista'', pyvista_ok), (''ansys-dpf-post'', dpf_ok)]"

text \<open>
  What the launcher prints and runs, in order. The printed texts hold characters
  outside ASCII, so each \<open>print\<close> is recorded by what it says and not by its text.
\<close>

datatype launch_event =
  PrintBanner
| PrintChecking
| PrintTkinterAvailable
| PrintTkinterNotAvailable
| PrintPyVista bool
| PrintDpfPost bool
| PrintMissing "string list"
| AskInstall
| PrintInstallingDependencies
| PrintInstalling string
| RunInstall "string list"
| PrintInstalled string
| PrintInstallFailed string
| PrintManualHint
| PrintMainScriptNotFound string
| PrintLaunching string string
| ChangeDirectory string
| RunGui "string list"
| PrintLaunchFailed int
| PrintInterrupted
| PrintUnexpectedError string

text \<open>
  The answers of the environment: \<open>subprocess.run(..., check=True)\<close> of an install
  command succeeds, fails with a non-zero status (\<open>CalledProcessError\<close>) or raises
  something else; the GUI process exits with a status, is interrupted from the keyboard,
  or could not be run.
\<close>

datatype pip_result =
  PipOk
| PipFailed
| PipRaised string

datatype gui_result =
  GuiExited int
| GuiInterrupted
| GuiRaised string

record launch_env =
  le_tkinter :: bool
  le_pyvista :: bool
  le_dpf :: bool
  le_response :: "string option"
  le_pip :: "string list \<Rightarrow> pip_result"
  le_current_dir :: string
  le_sys_executable :: string
  le_exists :: "string \<Rightarrow> bool"
  le_gui :: "string list \<Rightarrow> gui_result"

text \<open>
  \<open>le_response\<close> is the line typed at the prompt, or \<open>None\<close> when \<open>input\<close> raises
  (end of input).
\<close>

definition install_commands :: "(string \<times> string list) list" where
  "install_commands =
     [(''pyvista'', [''pip'', ''install'', ''pyvista'']),
      (''ansys-dpf-post'', [''pip'', ''install'', ''ansys-dpf-post''])]"

text \<open>
  The loop of \<open>install_missing_dependencies\<close>. It yields the events and the exception
  that left it, if any: only \<open>CalledProcessError\<close> is caught.
\<close>

fun install_loop ::
  "(string list \<Rightarrow> pip_result) \<Rightarrow> string list \<Rightarrow> launch_event list \<times> string option" where
  "install_loop pip [] = ([], None)"
| "install_loop pip (dep # missing) =
     (case map_of install_commands dep of
        None \<Rightarrow> install_loop pip missing
      | Some command \<Rightarrow>
          (case pip command of
             PipOk \<Rightarrow>
               (let (events, raised) = install_loop pip missing
                in ([PrintInstalling dep, RunInstall command, PrintInstalled dep] @ events, raised))
           | PipFailed \<Rightarrow>
               (let (events, raised) = install_loop pip missing
                in ([PrintInstalling dep, RunInstall command, PrintInstallFailed dep] @ events,
                    raised))
           | PipRaised e \<Rightarrow> ([PrintInstalling dep, RunInstall command], Some e)))"

definition install_missing_dependencies ::
  "string option \<Rightarrow> (string list \<Rightarrow> pip_result) \<Rightarrow> string list
     \<Rightarrow> launch_event list \<times> string option" where
  "install_missing_dependencies typed pip missing_deps =
     (if missing_deps = [] then ([], None)
      else case typed of
             None \<Rightarrow> ([PrintMissing missing_deps, AskInstall], Some ''EOFError'')
           | Some line \<Rightarrow>
               (let response = lower (strip line)
                in if response \<in> set [''y'', ''yes'']
                   then (let (events, raised) = install_loop pip missing_deps
                         in ([PrintMissing missing_deps, AskInstall, PrintInstallingDependencies]
                               @ events, raised))
                   else ([PrintMissing missing_deps, AskInstall, PrintManualHint], None)))"

text \<open>
  \<open>main\<close> of the launcher: the events and the exception that left it, if any.
  A key that is always present is looked up with \<open>the (map_of deps key)\<close>.
\<close>

definition launch_main :: "launch_env \<Rightarrow> launch_event list \<times> string option" where
  "launch_main env =
     (let deps = check_dependencies (le_tkinter env) (le_pyvista env) (le_dpf env);
          missing_deps =
            map fst (filter (\<lambda>(dep, available). \<not> available \<and> dep \<noteq> ''tkinter'') deps);
          start = [PrintBanner, PrintChecking]
      in if \<not> the (map_of deps ''tkinter'')
         then (start @ [PrintTkinterNotAvailable], None)
         else (let checked = start @ [PrintTkinterAvailable,
                                       PrintPyVista (the (map_of deps ''pyvista'')),
                                       PrintDpfPost (the (map_of deps ''ansys-dpf-post''))];
                   (installing, raised) =
                     (if missing_deps \<noteq> []
                      then install_missing_dependencies (le_response env) (le_pip env) missing_deps
                      else ([], None))
               in case raised of
                    Some e \<Rightarrow> (checked @ installing, Some e)
                  | None \<Rightarrow>
                      (let current_dir = le_current_dir env;
                           main_script = path_join current_dir ''main.py''
                       in if \<not> le_exists env main_script
                          then (checked @ installing @ [PrintMainScriptNotFound main_script], None)
                          else (let command = [le_sys_executable env, main_script];
                                    launching = checked @ installing
                                      @ [PrintLaunching current_dir (le_sys_executable env),
                                         ChangeDirectory current_dir, RunGui command]
                                in case le_gui env command of
                                     GuiExited returncode \<Rightarrow>
                                       if returncode \<noteq> 0
                                       then (launching @ [PrintLaunchFailed returncode], None)
                                       else (launching, None)
                                   | GuiInterrupted \<Rightarrow> (launching @ [PrintInterrupted], None)
                                   | GuiRaised e \<Rightarrow>
                                       (launching @ [PrintUnexpectedError e], None)))))"

text \<open>
  Running the file as a program calls \<open>main()\<close> and ends: with status 0 when \<open>main\<close>
  returns, with status 1 when an exception leaves it. The launcher never calls
  \<open>sys.exit\<close>.
\<close>

definition launch_py :: "launch_env \<Rightarrow> launch_event list \<times> int" where
  "launch_py env =
     (case launch_main env of
        (events, None) \<Rightarrow> (events, 0)
      | (events, Some e) \<Rightarrow> (events, 1))"

text \<open>Whether the launcher got as far as running the GUI process.\<close>

definition gui_started :: "launch_event list \<Rightarrow> bool" where
  "gui_started events = list_ex (\<lambda>ev. case ev of RunGui command \<Rightarrow> True | _ \<Rightarrow> False) events"

section \<open>Sample states\<close>

text \<open>
  A result viewer with two accepted files and the default result type, a mechanical
  viewer with one file selected in its list, and the result viewer after a first launch
  whose child failed.
\<close>

definition rv0 :: result_viewer where
  "rv0 = \<lparr> rv_selected_files = [''/r/a.rst'', ''/r/b.rst''],
           rv_result_type = ''von_mises'',
           rv_status_var = ''Selected 2 file(s) - Ready for 3D visualization'',
           rv_dialogs = [],
           rv_console = [],
           rv_files = Map.empty,
           rv_threads = [],
           rv_callback_errors = [] \<rparr>"

definition mv0 :: mechanical_viewer where
  "mv0 = \<lparr> m_selected_files = [''/m/a.mechdat''],
           m_tree_selection = [''/m/a.mechdat''],
           m_status_var = ''Selected 1 file(s) - Ready for interactive view'',
           m_dialogs = [],
           m_threads = [],
           m_callback_errors = [] \<rparr>"

definition rv1 :: result_viewer where
  "rv1 = run_in_thread ''python'' (\<lambda>argv. Ran [''General error: no such file''] 1) None
           ''/tmp/von_mises_fix_0f8c.py'' (open_interactive True ''/tmp'' ''0f8c'' None rv0)"

text \<open>A machine without tkinter, on which the user would accept the installation.\<close>

definition launch_env0 :: launch_env where
  "launch_env0 = \<lparr> le_tkinter = False, le_pyvista = True, le_dpf = False,
      le_response = Some ''y'', le_pip = (\<lambda>command. PipOk),
      le_current_dir = ''/app'', le_sys_executable = ''python'',
      le_exists = (\<lambda>p. True), le_gui = (\<lambda>command. GuiExited 0) \<rparr>"

section \<open>Properties of validate_files\<close>

lemma validate_loop_filter:
  "validate_loop ex exts files valid invalid =
     (valid @ filter (accepts ex exts) files,
      invalid @ filter (\<lambda>p. \<not> accepts ex exts p) files)"
  by (induction files arbitrary: valid invalid) (simp_all add: accepts_def Let_def)

lemma valid_files_filter:
  "valid_files (validate_files ex files exts) = filter (accepts ex exts) files"
  by (simp add: validate_files_def validate_loop_filter)

lemma invalid_files_filter:
  "invalid_files (validate_files ex files exts) = filter (\<lambda>p. \<not> accepts ex exts p) files"
  by (simp add: validate_files_def validate_loop_filter)

lemma shown_validate_files:
  "shown (validate_files ex files exts) =
     (if invalid_files (validate_files ex files exts) \<noteq> []
      then [ShowWarning ''Invalid Files''
              (invalid_files_message (invalid_files (validate_files ex files exts)))]
      else [])"
  by (simp add: validate_files_def validate_loop_filter)

lemma accepts_iff:
  "accepts ex exts p \<longleftrightarrow> ex p \<and> lower (snd (splitext p)) \<in> set exts"
  by (simp add: accepts_def Let_def)

text \<open>
  C1. A path of the input is in the accepted list of \<open>validate_files\<close> exactly when it
  exists and its final extension, lowercased, is one of the supported extensions; it is
  in the rejected list exactly when it fails one of the two checks.
\<close>

theorem validate_files_accepts_iff:
  "(p \<in> set (valid_files (validate_files ex files exts)) \<longleftrightarrow>
      p \<in> set files \<and> ex p \<and> lower (snd (splitext p)) \<in> set exts) \<and>
   (p \<in> set (invalid_files (validate_files ex files exts)) \<longleftrightarrow>
      p \<in> set files \<and> \<not> (ex p \<and> lower (snd (splitext p)) \<in> set exts))"
  by (simp add: valid_files_filter invalid_files_filter accepts_iff)

text \<open>
  C2. \<open>validate_files\<close> partitions its input: the accepted and the rejected list together
  are as long as the input, they share no path, and together they hold the paths of the
  input; each list keeps the input's order.
\<close>

theorem validate_files_partition:
  "length (valid_files (validate_files ex files exts))
     + length (invalid_files (validate_files ex files exts)) = length files \<and>
   set (valid_files (validate_files ex files exts))
     \<inter> set (invalid_files (validate_files ex files exts)) = {} \<and>
   set (valid_files (validate_files ex files exts))
     \<union> set (invalid_files (validate_files ex files exts)) = set files \<and>
   valid_files (validate_files ex files exts) = filter (accepts ex exts) files \<and>
   invalid_files (validate_files ex files exts) = filter (\<lambda>p. \<not> accepts ex exts p) files"
proof -
  have "length (filter (accepts ex exts) files)
          + length (filter (\<lambda>p. \<not> accepts ex exts p) files) = length files"
    by (rule sum_length_filter_compl)
  moreover have "set (filter (accepts ex exts) files)
                   \<inter> set (filter (\<lambda>p. \<not> accepts ex exts p) files) = {}"
    by auto
  moreover have "set (filter (accepts ex exts) files)
                   \<union> set (filter (\<lambda>p. \<not> accepts ex exts p) files) = set files"
    by auto
  ultimately show ?thesis
    by (simp only: valid_files_filter invalid_files_filter simp_thms)
qed

lemma sublist_str_join: "x \<in> set xs \<Longrightarrow> sublist x (str_join sep xs)"
proof (induction sep xs rule: str_join.induct)
  case (3 sep a b ys)
  show ?case
  proof (cases "x = a")
    case True
    then show ?thesis by simp
  next
    case False
    with 3 have "sublist x (str_join sep (b # ys))" by simp
    then show ?thesis by (simp add: sublist_append)
  qed
qed simp_all

lemma sublist_behind: "sublist x z \<Longrightarrow> sublist x (a @ z)"
  by (simp add: sublist_append)

lemma sublist_invalid_files_message:
  assumes "p \<in> set invalid"
  shows "sublist (basename p) (invalid_files_message invalid)"
proof -
  from assms have "basename p \<in> set (map basename invalid)" by simp
  then have "sublist (basename p) (str_join backslash_n (map basename invalid))"
    by (rule sublist_str_join)
  then show ?thesis
    unfolding invalid_files_message_def by (intro sublist_behind)
qed

text \<open>
  C7. A call of \<open>validate_files\<close> that rejects at least one path shows exactly one
  warning box, whose text holds the basename of every rejected path (the header, then the
  basenames joined); a call that rejects nothing shows no box.
\<close>

theorem validate_files_single_warning:
  "(invalid_files (validate_files ex files exts) = [] \<longrightarrow>
      shown (validate_files ex files exts) = []) \<and>
   (invalid_files (validate_files ex files exts) \<noteq> [] \<longrightarrow>
      shown (validate_files ex files exts) =
        [ShowWarning ''Invalid Files''
          (''The following files are not supported or don'' @ [CHR 0x27] @ ''t exist:''
             @ backslash_n
             @ str_join backslash_n
                 (map basename (invalid_files (validate_files ex files exts))))] \<and>
      (\<forall>p \<in> set (invalid_files (validate_files ex files exts)).
         sublist (basename p)
           (invalid_files_message (invalid_files (validate_files ex files exts)))))"
proof (intro conjI impI ballI)
  assume "invalid_files (validate_files ex files exts) = []"
  then show "shown (validate_files ex files exts) = []"
    by (simp add: shown_validate_files)
next
  assume "invalid_files (validate_files ex files exts) \<noteq> []"
  then show "shown (validate_files ex files exts) =
        [ShowWarning ''Invalid Files''
          (''The following files are not supported or don'' @ [CHR 0x27] @ ''t exist:''
             @ backslash_n
             @ str_join backslash_n
                 (map basename (invalid_files (validate_files ex files exts))))]"
    by (simp add: shown_validate_files invalid_files_message_def)
next
  fix p
  assume "p \<in> set (invalid_files (validate_files ex files exts))"
  then show "sublist (basename p)
           (invalid_files_message (invalid_files (validate_files ex files exts)))"
    by (rule sublist_invalid_files_message)
qed

lemma validate_files_example:
  "validate_files (\<lambda>p. p \<noteq> ''/d/gone.mechdat'')
     [''/d/a.MechDat'', ''/d/b.rst'', ''/d/gone.mechdat'', ''c.txt'']
     supported_mechanical_files =
   \<lparr> valid_files = [''/d/a.MechDat''],
     invalid_files = [''/d/b.rst'', ''/d/gone.mechdat'', ''c.txt''],
     shown = [ShowWarning ''Invalid Files''
                (invalid_files_message [''/d/b.rst'', ''/d/gone.mechdat'', ''c.txt''])] \<rparr>"
  by (simp add: validate_files_def supported_mechanical_files_def splitext_def rfind_def
      lower_def lower_char_def capitals_def small_letters_def Let_def)

theorem validate_files_single_warning_witness:
  "invalid_files (validate_files (\<lambda>p. p \<noteq> ''/d/gone.mechdat'')
     [''/d/a.MechDat'', ''/d/b.rst'', ''/d/gone.mechdat'', ''c.txt'']
     supported_mechanical_files) \<noteq> [] \<and>
   shown (validate_files (\<lambda>p. p \<noteq> ''/d/gone.mechdat'')
     [''/d/a.MechDat'', ''/d/b.rst'', ''/d/gone.mechdat'', ''c.txt'']
     supported_mechanical_files) =
     [ShowWarning ''Invalid Files''
        (''The following files are not supported or don'' @ [CHR 0x27] @ ''t exist:''
           @ [CHR 0x5C] @ ''nb.rst'' @ [CHR 0x5C] @ ''ngone.mechdat'' @ [CHR 0x5C] @ ''nc.txt'')] \<and>
   invalid_files (validate_files (\<lambda>p. True) [''/d/a.mechdat''] supported_mechanical_files) = [] \<and>
   shown (validate_files (\<lambda>p. True) [''/d/a.mechdat''] supported_mechanical_files) = []"
proof -
  have a: "invalid_files (validate_files (\<lambda>p. p \<noteq> ''/d/gone.mechdat'')
     [''/d/a.MechDat'', ''/d/b.rst'', ''/d/gone.mechdat'', ''c.txt'']
     supported_mechanical_files) = [''/d/b.rst'', ''/d/gone.mechdat'', ''c.txt'']"
    by (simp add: validate_files_example)
  have b: "invalid_files (validate_files (\<lambda>p. True) [''/d/a.mechdat'']
     supported_mechanical_files) = []"
    by (simp add: validate_files_def supported_mechanical_files_def splitext_def rfind_def
        lower_def lower_char_def capitals_def small_letters_def Let_def)
  show ?thesis
    using validate_files_single_warning [of "\<lambda>p. p \<noteq> ''/d/gone.mechdat''"
        "[''/d/a.MechDat'', ''/d/b.rst'', ''/d/gone.mechdat'', ''c.txt'']"
        supported_mechanical_files]
      validate_files_single_warning [of "\<lambda>p. True" "[''/d/a.mechdat'']"
        supported_mechanical_files]
    by (simp add: a b backslash_n_def basename_def rfind_def)
qed

section \<open>Properties of the result viewer's launch\<close>

lemma open_interactive_launch:
  assumes "rv_selected_files s = file_path # others" and "available"
  shows "open_interactive available tmpdir u None s =
           s\<lparr> rv_status_var := ''Launching 3D interactive viewer...'',
              rv_files := (rv_files s)(script_path_of tmpdir (rv_result_type s) u
                             \<mapsto> script_of (rv_result_type s) file_path),
              rv_threads := rv_threads s @ [script_path_of tmpdir (rv_result_type s) u] \<rparr>"
  using assms
  by (simp add: open_interactive_def create_von_mises_script_def
      create_total_deformation_script_def run_script_def script_path_of_def script_of_def Let_def)

lemma open_interactive_selected:
  "rv_selected_files (open_interactive available tmpdir u w s) = rv_selected_files s"
  by (simp add: open_interactive_def create_von_mises_script_def
      create_total_deformation_script_def run_script_def Let_def
      split: list.splits option.splits sum.splits prod.splits)





lemma rv1_eval:
  "rv1 = rv0\<lparr> rv_status_var := ''Error in 3D visualization'',
              rv_console := [DebugRunningScript ''/tmp/von_mises_fix_0f8c.py'',
                             ScriptOutput ''General error: no such file'',
                             DebugReturnCode 1, ErrorReturnCode 1,
                             DebugCleanedUp ''/tmp/von_mises_fix_0f8c.py''] \<rparr>"
  by (simp add: rv1_def rv0_def run_in_thread_def open_interactive_def create_von_mises_script_def
      run_script_def path_join_def strip_def is_space_def Let_def)

text \<open>
  C10. With a non-empty list of accepted files and the dependencies available, a launch
  of the result viewer writes and runs one script, for the first file of the list; the
  files behind it play no part (the outcome is the one of the list cut down to its first
  file), and the list is as it was.
\<close>

theorem open_interactive_first_file:
  assumes "rv_selected_files s = file_path # others" and "available"
  shows "open_interactive available tmpdir u None s =
           s\<lparr> rv_status_var := ''Launching 3D interactive viewer...'',
              rv_files := (rv_files s)(script_path_of tmpdir (rv_result_type s) u
                             \<mapsto> script_of (rv_result_type s) file_path),
              rv_threads := rv_threads s @ [script_path_of tmpdir (rv_result_type s) u] \<rparr> \<and>
         open_interactive available tmpdir u w s =
           (open_interactive available tmpdir u w (s\<lparr> rv_selected_files := [file_path] \<rparr>))
             \<lparr> rv_selected_files := file_path # others \<rparr> \<and>
         rv_selected_files (open_interactive available tmpdir u w s) = file_path # others"
proof (intro conjI)
  show "open_interactive available tmpdir u None s =
           s\<lparr> rv_status_var := ''Launching 3D interactive viewer...'',
              rv_files := (rv_files s)(script_path_of tmpdir (rv_result_type s) u
                             \<mapsto> script_of (rv_result_type s) file_path),
              rv_threads := rv_threads s @ [script_path_of tmpdir (rv_result_type s) u] \<rparr>"
    using assms by (rule open_interactive_launch)
  show "open_interactive available tmpdir u w s =
           (open_interactive available tmpdir u w (s\<lparr> rv_selected_files := [file_path] \<rparr>))
             \<lparr> rv_selected_files := file_path # others \<rparr>"
    using assms
    by (simp add: open_interactive_def create_von_mises_script_def
        create_total_deformation_script_def run_script_def Let_def
        split: option.splits)
  show "rv_selected_files (open_interactive available tmpdir u w s) = file_path # others"
    using assms by (simp add: open_interactive_selected)
qed

theorem open_interactive_first_file_witness:
  "open_interactive True ''/tmp'' ''0f8c'' None rv0 =
     rv0\<lparr> rv_status_var := ''Launching 3D interactive viewer...'',
          rv_files := [''/tmp/von_mises_fix_0f8c.py'' \<mapsto> VonMisesScript ''/r/a.rst''],
          rv_threads := [''/tmp/von_mises_fix_0f8c.py''] \<rparr> \<and>
   rv_selected_files (open_interactive True ''/tmp'' ''0f8c'' None rv0) = [''/r/a.rst'', ''/r/b.rst'']"
  using open_interactive_first_file [of rv0 "''/r/a.rst''" "[''/r/b.rst'']" True "''/tmp''" "''0f8c''" None]
  by (simp add: rv0_def script_path_of_def script_of_def path_join_def)







text \<open>
  C4. The thread that runs a result script deletes the script file whatever the child
  did (any return code, or an exception): after it the file is gone when \<open>os.remove\<close>
  did not raise. When \<open>os.remove\<close> raises, the only trace is one line on the console: the
  status text is the one of a clean deletion, and no box and no callback error is added.
\<close>

theorem run_in_thread_cleanup:
  "rv_files (run_in_thread exe popen None script_path s) script_path = None \<and>
   rv_status_var (run_in_thread exe popen (Some e) script_path s) =
     rv_status_var (run_in_thread exe popen None script_path s) \<and>
   rv_dialogs (run_in_thread exe popen remove_error script_path s) = rv_dialogs s \<and>
   rv_callback_errors (run_in_thread exe popen remove_error script_path s) = rv_callback_errors s \<and>
   (\<exists>c. rv_console (run_in_thread exe popen None script_path s) =
           (if rv_files s script_path = None then c else c @ [DebugCleanedUp script_path]) \<and>
        rv_console (run_in_thread exe popen (Some e) script_path s) =
           (if rv_files s script_path = None then c else c @ [DebugCleanupError e]))"
  by (cases "popen [exe, script_path]"; cases remove_error)
     (simp_all add: run_in_thread_def Let_def)

section \<open>Properties of the completion reports\<close>

text \<open>
  C3 as stated fails on a non-zero return code. The mechanical viewer reports the
  child's standard error alone and drops its standard output; the result viewer sets a
  fixed status text, shows no box, and its report holds nothing of the child's output.
\<close>

theorem failure_report_without_combined_output:
  "viewer_worker (\<lambda>p. True) ''/app/src'' ''python''
     (\<lambda>argv. Exited 1 ''Opening file: /m/a.mechdat'' ''Error: cannot open'') ''/m/a.mechdat'' =
     ViewerFailed ''Error: cannot open'' \<and>
   rv_status_var rv1 = ''Error in 3D visualization'' \<and>
   rv_dialogs rv1 = [] \<and>
   \<not> sublist ''General error: no such file'' (rv_status_var rv1)"
proof -
  have "\<not> sublist ''General error: no such file'' ''Error in 3D visualization''"
    using sublist_length_le [of "''General error: no such file''" "''Error in 3D visualization''"]
    by auto
  then show ?thesis
    by (simp add: rv1_eval rv0_def viewer_worker_def path_join_def Let_def)
qed

text \<open>
  C3, amended. After the child exits, both viewers report success exactly when the
  return code is zero. On a non-zero return code the mechanical viewer reports failure
  with the child's standard error, or with its standard output when the standard error
  is empty; the result viewer sets the status to a fixed text and shows no box, the
  lines of the child's output having gone, stripped, to the console only.
\<close>

theorem completion_report:
  assumes "ex (path_join current_dir ''interactive_worker.py'')"
    and "run [exe, path_join current_dir ''interactive_worker.py'', file_path] =
           Exited returncode stdout stderr"
    and "popen [exe, script_path] = Ran lines return_code"
  shows "viewer_thread_done ex current_dir exe run file_path m =
           (if returncode = 0
            then viewer_success (m\<lparr> m_threads := remove1 file_path (m_threads m) \<rparr>)
            else viewer_failed (if stderr \<noteq> [] then stderr else stdout)
                   (m\<lparr> m_threads := remove1 file_path (m_threads m) \<rparr>)) \<and>
         rv_status_var (run_in_thread exe popen remove_error script_path s) =
           (if return_code = 0 then ''3D visualization completed successfully''
            else ''Error in 3D visualization'') \<and>
         rv_dialogs (run_in_thread exe popen remove_error script_path s) = rv_dialogs s \<and>
         (\<exists>cleanup. rv_console (run_in_thread exe popen remove_error script_path s) =
            rv_console s @ [DebugRunningScript script_path]
              @ map (\<lambda>line. ScriptOutput (strip line)) lines
              @ [DebugReturnCode return_code,
                 if return_code = 0 then SuccessCompleted else ErrorReturnCode return_code]
              @ cleanup)"
proof (intro conjI)
  show "viewer_thread_done ex current_dir exe run file_path m =
           (if returncode = 0
            then viewer_success (m\<lparr> m_threads := remove1 file_path (m_threads m) \<rparr>)
            else viewer_failed (if stderr \<noteq> [] then stderr else stdout)
                   (m\<lparr> m_threads := remove1 file_path (m_threads m) \<rparr>))"
    using assms(1,2) by (simp add: viewer_thread_done_def viewer_worker_def Let_def)
  show "rv_status_var (run_in_thread exe popen remove_error script_path s) =
           (if return_code = 0 then ''3D visualization completed successfully''
            else ''Error in 3D visualization'')"
    using assms(3) by (cases remove_error) (simp_all add: run_in_thread_def Let_def)
  show "rv_dialogs (run_in_thread exe popen remove_error script_path s) = rv_dialogs s"
    using assms(3) by (cases remove_error) (simp_all add: run_in_thread_def Let_def)
  show "\<exists>cleanup. rv_console (run_in_thread exe popen remove_error script_path s) =
            rv_console s @ [DebugRunningScript script_path]
              @ map (\<lambda>line. ScriptOutput (strip line)) lines
              @ [DebugReturnCode return_code,
                 if return_code = 0 then SuccessCompleted else ErrorReturnCode return_code]
              @ cleanup"
    using assms(3) by (cases remove_error) (simp_all add: run_in_thread_def Let_def)
qed

theorem completion_report_witness:
  "viewer_thread_done (\<lambda>p. True) ''/app/src'' ''python''
     (\<lambda>argv. Exited 1 ''Opening file: /m/a.mechdat'' ''Error: cannot open'') ''/m/a.mechdat''
     (open_interactive_view mv0) =
     mv0\<lparr> m_status_var := ''Viewer launch failed'',
          m_dialogs := [ShowError ''Viewer Error''
             (''Failed to launch PyANSYS viewer:'' @ backslash_n @ backslash_n
                @ ''Error: cannot open'')] \<rparr> \<and>
   viewer_thread_done (\<lambda>p. True) ''/app/src'' ''python''
     (\<lambda>argv. Exited 1 ''Usage: python interactive_worker.py <mechdat_file_path>'' [])
     ''/m/a.mechdat'' (open_interactive_view mv0) =
     mv0\<lparr> m_status_var := ''Viewer launch failed'',
          m_dialogs := [ShowError ''Viewer Error''
             (''Failed to launch PyANSYS viewer:'' @ backslash_n @ backslash_n
                @ ''Usage: python interactive_worker.py <mechdat_file_path>'')] \<rparr> \<and>
   rv_status_var (run_in_thread ''python'' (\<lambda>argv. Ran [''Approach 1 successful''] 0) None
      ''/tmp/von_mises_fix_0f8c.py'' (open_interactive True ''/tmp'' ''0f8c'' None rv0)) =
     ''3D visualization completed successfully'' \<and>
   rv_status_var (run_in_thread ''python'' (\<lambda>argv. Ran [''General error: no such file''] 1)
      None ''/tmp/von_mises_fix_0f8c.py'' (open_interactive True ''/tmp'' ''0f8c'' None rv0)) =
     ''Error in 3D visualization''"
  using completion_report [where ex="\<lambda>p. True" and current_dir="''/app/src''"
      and run="\<lambda>argv. Exited 1 ''Opening file: /m/a.mechdat'' ''Error: cannot open''"
      and exe="''python''" and file_path="''/m/a.mechdat''" and returncode=1
      and stdout="''Opening file: /m/a.mechdat''" and stderr="''Error: cannot open''"
      and popen="\<lambda>argv. Ran [''Approach 1 successful''] 0"
      and script_path="''/tmp/von_mises_fix_0f8c.py''"
      and lines="[''Approach 1 successful'']" and return_code=0
      and m="open_interactive_view mv0" and remove_error=None
      and s="open_interactive True ''/tmp'' ''0f8c'' None rv0"]
    completion_report [where ex="\<lambda>p. True" and current_dir="''/app/src''"
      and run="\<lambda>argv. Exited 1 ''Usage: python interactive_worker.py <mechdat_file_path>'' []"
      and exe="''python''" and file_path="''/m/a.mechdat''" and returncode=1
      and stdout="''Usage: python interactive_worker.py <mechdat_file_path>''" and stderr="[]"
      and popen="\<lambda>argv. Ran [''General error: no such file''] 1"
      and script_path="''/tmp/von_mises_fix_0f8c.py''"
      and lines="[''General error: no such file'']" and return_code=1
      and m="open_interactive_view mv0" and remove_error=None
      and s="open_interactive True ''/tmp'' ''0f8c'' None rv0"]
  by (simp add: mv0_def viewer_failed_def open_interactive_view_def launch_interactive_viewer_def)

section \<open>Properties of the script interfaces\<close>

lemma interactive_worker_usage:
  "length argv \<noteq> 2 \<Longrightarrow>
     interactive_worker None session stdin_eof argv =
       (1, [''Usage: python interactive_worker.py <mechdat_file_path>''], None)"
  by (simp add: interactive_worker_def)

lemma interactive_worker_one_argument:
  "interactive_worker None session stdin_eof [worker_script, mechdat_path] =
     (case session mechdat_path of
        (printed, Some e) \<Rightarrow>
          handle_exception stdin_eof ([''Opening file: '' @ mechdat_path] @ printed) e
      | (printed, None) \<Rightarrow> (0, [''Opening file: '' @ mechdat_path] @ printed, None))"
  by (simp add: interactive_worker_def split: prod.splits option.splits)

lemma example_worker_start_plain:
  assumes "plain_literal embedded"
  shows "example_worker_start None embedded argv =
           (if length argv < 2 then Exits 1
            else Plots (argv ! 1)
                   (if (if length argv < 3 then embedded else argv ! 2) = ''Von Mises Stress''
                    then VonMisesStress else TotalDeformation))"
  using assms by (simp add: example_worker_start_def Let_def)

text \<open>
  C6 as stated fails for the scripts of the application. The mechanical worker, given a
  file path and a result kind, prints its usage and exits with status 1; the script of the
  result viewer is run with no argument after its own path.
\<close>

theorem application_scripts_take_no_result_kind:
  "interactive_worker None (\<lambda>p. ([], None)) False
     [''interactive_worker.py'', ''/m/a.mechdat'', ''Von Mises Stress''] =
     (1, [''Usage: python interactive_worker.py <mechdat_file_path>''], None) \<and>
   rv_console (run_in_thread ''python''
       (\<lambda>argv. if argv = [''python'', ''/tmp/von_mises_fix_0f8c.py''] then Ran [] 0 else Ran [] 2)
       None ''/tmp/von_mises_fix_0f8c.py'' (open_interactive True ''/tmp'' ''0f8c'' None rv0)) =
     [DebugRunningScript ''/tmp/von_mises_fix_0f8c.py'', DebugReturnCode 0, SuccessCompleted,
      DebugCleanedUp ''/tmp/von_mises_fix_0f8c.py'']"
  by (simp add: interactive_worker_def run_in_thread_def open_interactive_def rv0_def
      create_von_mises_script_def run_script_def path_join_def Let_def)

text \<open>
  C6, amended. The worker script generated by the example viewer accepts the positional
  arguments (file path, result kind), provided the kind pasted into its text has no
  double quote, backslash, line break or null character: \<open>launch_viewer\<close> runs it with
  both; given both, it takes the path from the first and the kind from the second and
  plots the Von Mises stress for \<open>Von Mises Stress\<close> and the total deformation for every
  other kind; given the path alone, it falls back to the kind pasted into its text; given
  no argument, it exits with status 1. The scripts of the application take no result
  kind. A launch of the result viewer (files selected, dependencies available, script
  written) writes the Von Mises script for the result type \<open>von_mises\<close> and the total
  deformation script for every other result type, with the first selected file pasted in,
  and what its thread does is decided by the child it asks for, the interpreter on the
  script with no argument. \<open>interactive_worker.py\<close>, its import having succeeded, takes
  exactly one argument, the file path, which it hands to the session; on any other number
  of arguments it prints its usage and exits with status 1.
\<close>

theorem script_argument_interfaces:
  assumes "plain_literal embedded"
    and "rv_selected_files s = file_path # others" and "available"
  shows "example_worker_start None embedded
           (tl (launch_viewer_argv sys_executable temp_script rst_path embedded)) =
           Plots rst_path
             (if embedded = ''Von Mises Stress'' then VonMisesStress else TotalDeformation) \<and>
         (3 \<le> length argv \<longrightarrow>
            example_worker_start None embedded argv =
              Plots (argv ! 1)
                (if argv ! 2 = ''Von Mises Stress'' then VonMisesStress else TotalDeformation)) \<and>
         (length argv = 2 \<longrightarrow>
            example_worker_start None embedded argv =
              Plots (argv ! 1)
                (if embedded = ''Von Mises Stress'' then VonMisesStress else TotalDeformation)) \<and>
         (length argv < 2 \<longrightarrow> example_worker_start None embedded argv = Exits 1) \<and>
         rv_files (open_interactive available tmpdir u None s)
           (script_path_of tmpdir (rv_result_type s) u) =
           Some (if rv_result_type s = ''von_mises'' then VonMisesScript file_path
                 else TotalDeformationScript file_path) \<and>
         rv_threads (open_interactive available tmpdir u None s) =
           rv_threads s @ [script_path_of tmpdir (rv_result_type s) u] \<and>
         run_in_thread sys_executable popen remove_error script_path t =
           run_in_thread sys_executable (\<lambda>argv. popen [sys_executable, script_path])
             remove_error script_path t \<and>
         (length wargv \<noteq> 2 \<longrightarrow>
            interactive_worker None session stdin_eof wargv =
              (1, [''Usage: python interactive_worker.py <mechdat_file_path>''], None)) \<and>
         interactive_worker None session stdin_eof [worker_script, mechdat_path] =
           (case session mechdat_path of
              (printed, Some e) \<Rightarrow>
                handle_exception stdin_eof ([''Opening file: '' @ mechdat_path] @ printed) e
            | (printed, None) \<Rightarrow> (0, [''Opening file: '' @ mechdat_path] @ printed, None))"
proof -
  note w = example_worker_start_plain [OF assms(1)]
  have "example_worker_start None embedded
           (tl (launch_viewer_argv sys_executable temp_script rst_path embedded)) =
           Plots rst_path
             (if embedded = ''Von Mises Stress'' then VonMisesStress else TotalDeformation)"
    by (simp add: w launch_viewer_argv_def)
  moreover have "3 \<le> length argv \<longrightarrow>
            example_worker_start None embedded argv =
              Plots (argv ! 1)
                (if argv ! 2 = ''Von Mises Stress'' then VonMisesStress else TotalDeformation)"
    by (simp add: w)
  moreover have "length argv = 2 \<longrightarrow>
            example_worker_start None embedded argv =
              Plots (argv ! 1)
                (if embedded = ''Von Mises Stress'' then VonMisesStress else TotalDeformation)"
    by (simp add: w)
  moreover have "length argv < 2 \<longrightarrow> example_worker_start None embedded argv = Exits 1"
    by (simp add: w)
  moreover have "rv_files (open_interactive available tmpdir u None s)
           (script_path_of tmpdir (rv_result_type s) u) =
           Some (if rv_result_type s = ''von_mises'' then VonMisesScript file_path
                 else TotalDeformationScript file_path)"
    and "rv_threads (open_interactive available tmpdir u None s) =
           rv_threads s @ [script_path_of tmpdir (rv_result_type s) u]"
    by (simp_all add: open_interactive_launch [OF assms(2,3)] script_of_def)
  moreover have "run_in_thread sys_executable popen remove_error script_path t =
           run_in_thread sys_executable (\<lambda>argv. popen [sys_executable, script_path])
             remove_error script_path t"
    by (simp add: run_in_thread_def)
  moreover have "length wargv \<noteq> 2 \<longrightarrow>
            interactive_worker None session stdin_eof wargv =
              (1, [''Usage: python interactive_worker.py <mechdat_file_path>''], None)"
    by (simp add: interactive_worker_usage)
  moreover have "interactive_worker None session stdin_eof [worker_script, mechdat_path] =
           (case session mechdat_path of
              (printed, Some e) \<Rightarrow>
                handle_exception stdin_eof ([''Opening file: '' @ mechdat_path] @ printed) e
            | (printed, None) \<Rightarrow> (0, [''Opening file: '' @ mechdat_path] @ printed, None))"
    by (rule interactive_worker_one_argument)
  ultimately show ?thesis by blast
qed

theorem script_argument_interfaces_witness:
  "plain_literal ''Von Mises Stress'' \<and>
   rv_selected_files rv0 = [''/r/a.rst'', ''/r/b.rst''] \<and>
   example_worker_start None ''Von Mises Stress''
     [''/tmp/tmpk3.py'', ''/r/a.rst'', ''Von Mises Stress''] = Plots ''/r/a.rst'' VonMisesStress \<and>
   example_worker_start None ''Von Mises Stress''
     [''/tmp/tmpk3.py'', ''/r/a.rst'', ''Total Deformation''] = Plots ''/r/a.rst'' TotalDeformation \<and>
   example_worker_start None ''Von Mises Stress''
     [''/tmp/tmpk3.py'', ''/r/a.rst'', ''Principal Stress''] = Plots ''/r/a.rst'' TotalDeformation \<and>
   example_worker_start None ''Von Mises Stress'' [''/tmp/tmpk3.py'', ''/r/a.rst''] =
     Plots ''/r/a.rst'' VonMisesStress \<and>
   example_worker_start None ''Von Mises Stress'' [''/tmp/tmpk3.py''] = Exits 1 \<and>
   rv_files (open_interactive True ''/tmp'' ''0f8c'' None rv0) ''/tmp/von_mises_fix_0f8c.py'' =
     Some (VonMisesScript ''/r/a.rst'') \<and>
   interactive_worker None (\<lambda>p. ([], None)) False [''interactive_worker.py''] =
     (1, [''Usage: python interactive_worker.py <mechdat_file_path>''], None) \<and>
   interactive_worker None (\<lambda>p. ([], None)) False
     [''interactive_worker.py'', ''/m/a.mechdat'', ''Von Mises Stress''] =
     (1, [''Usage: python interactive_worker.py <mechdat_file_path>''], None) \<and>
   interactive_worker None (\<lambda>p. ([''App instance created''], None)) False
     [''interactive_worker.py'', ''/m/a.mechdat''] =
     (0, [''Opening file: /m/a.mechdat'', ''App instance created''], None)"
proof -
  have a: "plain_literal ''Von Mises Stress''" by (simp add: plain_literal_def)
  have b: "rv_selected_files rv0 = [''/r/a.rst'', ''/r/b.rst'']" by (simp add: rv0_def)
  have c: "rv_result_type rv0 = ''von_mises''" by (simp add: rv0_def)
  show ?thesis
    using a b
      script_argument_interfaces [OF a b TrueI, where
        argv="[''/tmp/tmpk3.py'', ''/r/a.rst'', ''Von Mises Stress'']"
        and tmpdir="''/tmp''" and u="''0f8c''" and wargv="[''interactive_worker.py'']"
        and session="\<lambda>p. ([], None)" and stdin_eof=False]
      script_argument_interfaces [OF a b TrueI, where
        argv="[''/tmp/tmpk3.py'', ''/r/a.rst'', ''Total Deformation'']"
        and wargv="[''interactive_worker.py'', ''/m/a.mechdat'', ''Von Mises Stress'']"
        and session="\<lambda>p. ([], None)" and stdin_eof=False]
      script_argument_interfaces [OF a b TrueI, where
        argv="[''/tmp/tmpk3.py'', ''/r/a.rst'', ''Principal Stress'']"
        and session="\<lambda>p. ([''App instance created''], None)" and stdin_eof=False
        and worker_script="''interactive_worker.py''" and mechdat_path="''/m/a.mechdat''"]
      script_argument_interfaces [OF a b TrueI, where argv="[''/tmp/tmpk3.py'', ''/r/a.rst'']"]
      script_argument_interfaces [OF a b TrueI, where argv="[''/tmp/tmpk3.py'']"]
    by (simp add: c script_path_of_def path_join_def)
qed

section \<open>Properties of the launcher\<close>

text \<open>
  C8 as stated fails in its last part: without tkinter the launcher stops before the GUI,
  but the process ends with status 0.
\<close>

theorem launcher_without_tkinter_exits_zero:
  "launch_py launch_env0 = ([PrintBanner, PrintChecking, PrintTkinterNotAvailable], 0) \<and>
   \<not> gui_started (fst (launch_py launch_env0)) \<and>
   snd (launch_py launch_env0) = 0"
  by (simp add: launch_py_def launch_main_def launch_env0_def check_dependencies_def
      gui_started_def Let_def)

text \<open>
  C8, amended. If tkinter is unavailable, the launcher says so and returns at once: it
  offers no installation and does not start the GUI, and the process ends with status 0.
\<close>

theorem launcher_without_tkinter:
  assumes "\<not> le_tkinter env"
  shows "launch_py env = ([PrintBanner, PrintChecking, PrintTkinterNotAvailable], 0) \<and>
         \<not> gui_started (fst (launch_py env))"
  using assms
  by (simp add: launch_py_def launch_main_def check_dependencies_def gui_started_def Let_def)

theorem launcher_without_tkinter_witness:
  "\<not> le_tkinter launch_env0 \<and>
   launch_py launch_env0 = ([PrintBanner, PrintChecking, PrintTkinterNotAvailable], 0) \<and>
   \<not> gui_started (fst (launch_py launch_env0))"
proof -
  have a: "\<not> le_tkinter launch_env0" by (simp add: launch_env0_def)
  show ?thesis using a launcher_without_tkinter [OF a] by blast
qed

end
